theory Spec2Isabelle
  imports Main "HOL-Library.Sublist"
begin

section \<open>The release script \<^verbatim>\<open>scripts/deploy/deploy.py\<close>\<close>

text \<open>
  The script is a straight line of external commands around one file, the plugin manifest.
  The model makes the outside world a record of what each external interaction answers,
  threads the manifest file and an ordered trace of effects through the script, and turns
  every \<^verbatim>\<open>raise\<close> and \<^verbatim>\<open>exit\<close> into a value.

  Conventions of the model:
  \<^item> strings are byte strings, and the output of a subprocess is a string like any other
    (the \<^verbatim>\<open>str\<close> of Python 2, the interpreter this script was written for);
  \<^item> the content of the manifest file is its parsed form, or \<open>Malformed\<close> when
    \<^verbatim>\<open>ET.parse\<close> would raise;
  \<^item> \<^verbatim>\<open>git checkout resources/META-INF/plugin.xml\<close> names a path and no
    commit, so it takes the file from git's index: one that returns 0 has put the manifest
    of the index on disk, one that returns non-zero has left the file alone. The index holds
    the manifest of the \<^verbatim>\<open>HEAD\<close> commit unless an edit of it has been staged.
    No other external command touches the manifest;
  \<^item> an uncaught exception ends the process with status 1, as the interpreter does.
\<close>

subsection \<open>Module constants (lines 9 to 14)\<close>

definition PLUGIN_XML :: string where
  "PLUGIN_XML = ''resources/META-INF/plugin.xml''"

definition PLUGIN_ID :: string where
  \<comment> \<open>the integer 7412 as \<^verbatim>\<open>format\<close> renders it\<close>
  "PLUGIN_ID = ''7412''"

definition PLUGIN_JAR :: string where
  "PLUGIN_JAR = ''dist/intellij-pants-plugin-publish.jar''"

definition CHANNEL_BLEEDING_EDGE :: string where
  "CHANNEL_BLEEDING_EDGE = ''BleedingEdge''"

definition CHANNEL_STABLE :: string where
  "CHANNEL_STABLE = ''Stable''"

definition REPO :: string where
  "REPO = ''https://plugins.jetbrains.com/plugin/7412''"

subsection \<open>The manifest as an element tree\<close>

datatype element = Element (etag: string) (etext: "string option") (echildren: "element list")

datatype manifest_file = Malformed | Document element

definition find_el :: "element \<Rightarrow> string \<Rightarrow> element option" where
  \<comment> \<open>\<^verbatim>\<open>root.find(name)\<close>: the first direct child with that tag, or \<^verbatim>\<open>None\<close>\<close>
  "find_el root name = List.find (\<lambda>c. etag c = name) (echildren root)"

fun set_first_text :: "string \<Rightarrow> string \<Rightarrow> element list \<Rightarrow> element list" where
  "set_first_text name t [] = []"
| "set_first_text name t (c # cs) =
     (if etag c = name then Element (etag c) (Some t) (echildren c) # cs
      else c # set_first_text name t cs)"

definition set_text :: "element \<Rightarrow> string \<Rightarrow> string \<Rightarrow> element" where
  \<comment> \<open>\<^verbatim>\<open>root.find(name).text = t\<close>: the found child is a reference into the tree\<close>
  "set_text root name t = Element (etag root) (etext root) (set_first_text name t (echildren root))"

definition py_str :: "string option \<Rightarrow> string" where
  \<comment> \<open>what \<^verbatim>\<open>'{}'.format(x)\<close> gives for a text that may be \<^verbatim>\<open>None\<close>\<close>
  "py_str x = (case x of None \<Rightarrow> ''None'' | Some s \<Rightarrow> s)"

definition read_version :: "manifest_file \<Rightarrow> element option" where
  \<comment> \<open>lines 44 to 46 on a file content: the \<^verbatim>\<open>version\<close> element, if the file parses and has one\<close>
  "read_version f = (case f of Malformed \<Rightarrow> None | Document root \<Rightarrow> find_el root ''version'')"

subsection \<open>Strings: \<^verbatim>\<open>strip\<close>, and what \<^verbatim>\<open>grep\<close> finds\<close>

definition is_space :: "char \<Rightarrow> bool" where
  "is_space c = (c \<in> set [CHR 0x20, CHR 0x09, CHR 0x0A, CHR 0x0D, CHR 0x0B, CHR 0x0C])"

definition strip :: "string \<Rightarrow> string" where
  "strip s = rev (dropWhile is_space (rev (dropWhile is_space s)))"

fun split_lines :: "string \<Rightarrow> string list" where
  "split_lines [] = [[]]"
| "split_lines (c # cs) =
     (if c = CHR 0x0A then [] # split_lines cs
      else (case split_lines cs of [] \<Rightarrow> [[c]] | l # ls \<Rightarrow> (c # l) # ls))"

definition is_object_name :: "string \<Rightarrow> bool" where
  \<comment> \<open>what \<^verbatim>\<open>git rev-parse HEAD\<close> prints: a non-empty word of lower-case hex digits\<close>
  "is_object_name s = (s \<noteq> [] \<and> list_all (\<lambda>c. c \<in> set ''0123456789abcdef'') s)"

definition grep_selects :: "string \<Rightarrow> string \<Rightarrow> bool" where
  \<comment> \<open>\<^verbatim>\<open>grep pat\<close> for a pattern without metacharacters: some input line contains it\<close>
  "grep_selects pat input = list_ex (sublist pat) (split_lines input)"

subsection \<open>External commands and log messages\<close>

text \<open>
  Every shell command the script composes and every message it logs is a constructor
  carrying the values that are formatted into it; \<open>command_line\<close> and \<open>message_text\<close>
  give the strings of the source.
\<close>

datatype command =
    GitCheckout                            \<comment> \<open>lines 42 and 91\<close>
  | GitRevParse                            \<comment> \<open>line 22\<close>
  | BuildJar                               \<comment> \<open>lines 69 and 70\<close>
  | Packaging string                       \<comment> \<open>lines 77 to 84, with the zip name\<close>
  | Upload string string string string     \<comment> \<open>lines 93 to 104: channel, username, password, zip name\<close>
  | CurlGrep string                        \<comment> \<open>line 114, with the pattern\<close>

fun command_line :: "command \<Rightarrow> string" where
  "command_line GitCheckout = ''git checkout '' @ PLUGIN_XML"
| "command_line GitRevParse = ''git rev-parse HEAD''"
| "command_line BuildJar =
     ''rm -rf dist;'' @ ''./pants binary scripts/sdk:intellij-pants-plugin-publish''"
| "command_line (Packaging z) =
     ''mkdir -p tmp/pants/lib && '' @ ''cp '' @ PLUGIN_JAR @ '' tmp/pants/lib && ''
     @ ''cd tmp && '' @ ''zip -r '' @ z @ '' pants/ &&'' @ ''cd .. &&''
     @ ''cp tmp/'' @ z @ '' '' @ z @ '' &&'' @ ''rm -rf tmp''"
| "command_line (Upload ch username password z) =
     ''java -jar scripts/deploy/plugin-repository-rest-client-0.3.SNAPSHOT-all.jar upload ''
     @ ''-host https://plugins.jetbrains.com/ ''
     @ ''-channel '' @ ch @ '' ''
     @ ''-username '' @ username @ '' ''
     @ ''-password '' @ [CHR 0x27] @ password @ [CHR 0x27] @ '' ''
     @ ''-plugin '' @ PLUGIN_ID @ '' ''
     @ ''-file '' @ z"
| "command_line (CurlGrep h) = ''curl '' @ REPO @ '' | grep '' @ h"

datatype message =
    CommandFailed command                  \<comment> \<open>line 26\<close>
  | VersionTagNotFound                     \<comment> \<open>line 49\<close>
  | AppendSha string                       \<comment> \<open>line 58\<close>
  | Releasing string string                \<comment> \<open>line 63: version text and channel\<close>
  | Running command                        \<comment> \<open>lines 71 and 85\<close>
  | PackagingIntoZip                       \<comment> \<open>line 74\<close>
  | BuiltSuccessfully string               \<comment> \<open>line 87\<close>
  | Uploading                              \<comment> \<open>line 106\<close>
  | DeployFailed                           \<comment> \<open>line 116\<close>
  | DeploySucceeded                        \<comment> \<open>line 118\<close>

fun message_text :: "message \<Rightarrow> string" where
  "message_text (CommandFailed c) = command_line c @ '' failed.''"
| "message_text VersionTagNotFound = ''version tag not found in '' @ PLUGIN_XML"
| "message_text (AppendSha h) = ''Append current git sha, '' @ h @ '', to plugin version''"
| "message_text (Releasing v ch) = ''Releasing '' @ v @ '' to '' @ ch @ '' channel''"
| "message_text (Running c) = command_line c"
| "message_text PackagingIntoZip = ''Packaging into a zip''"
| "message_text (BuiltSuccessfully z) = z @ '' built successfully''"
| "message_text Uploading = ''Uploading...''"
| "message_text DeployFailed = ''Deploy failed: not available on '' @ REPO"
| "message_text DeploySucceeded = ''Deploy succeeded.''"

subsection \<open>The outside world, the state and the effects\<close>

record world =
  arg_tag :: string                        \<comment> \<open>\<^verbatim>\<open>args.tag\<close>, \<^verbatim>\<open>''\<close> by default\<close>
  disk_before :: manifest_file             \<comment> \<open>the manifest on disk when the script starts\<close>
  committed :: manifest_file               \<comment> \<open>the manifest in the \<^verbatim>\<open>HEAD\<close> commit\<close>
  indexed :: manifest_file                 \<comment> \<open>the manifest in git's index, which \<^verbatim>\<open>git checkout\<close> of a path restores\<close>
  checkout_first_rc :: nat                 \<comment> \<open>return code of the checkout of line 42\<close>
  rev_parse_rc :: nat                      \<comment> \<open>return code of \<^verbatim>\<open>git rev-parse HEAD\<close>\<close>
  rev_parse_out :: string                  \<comment> \<open>its standard output\<close>
  build_rc :: nat                          \<comment> \<open>return code of the build command, line 72\<close>
  packaging_rc :: nat                      \<comment> \<open>return code of the packaging command, line 86\<close>
  checkout_final_rc :: nat                 \<comment> \<open>return code of the checkout of line 91\<close>
  environ :: "string \<Rightarrow> string option"     \<comment> \<open>\<^verbatim>\<open>os.environ\<close>\<close>
  upload_rc :: nat                         \<comment> \<open>return code of the uploader, line 108\<close>
  page :: string                           \<comment> \<open>what \<^verbatim>\<open>curl REPO\<close> writes, empty if it fails\<close>
  other_grep_rc :: nat                     \<comment> \<open>return code of line 114 when the pattern is no object name\<close>

datatype event =
    Cmd command             \<comment> \<open>a shell command was run\<close>
  | LogInfo message         \<comment> \<open>\<^verbatim>\<open>logger.info\<close>\<close>
  | LogError message        \<comment> \<open>\<^verbatim>\<open>logger.error\<close>\<close>
  | WriteManifest element   \<comment> \<open>\<^verbatim>\<open>tree.write(PLUGIN_XML)\<close>\<close>

record state =
  disk :: manifest_file     \<comment> \<open>the manifest on disk\<close>
  trace :: "event list"     \<comment> \<open>the effects so far, oldest first\<close>

datatype exn =
    SystemExit nat
  | CalledProcessError nat command
  | ParseError
  | KeyError string
  | NameError string

definition exit_code :: "exn option \<Rightarrow> nat" where
  \<comment> \<open>the status of the process: \<open>None\<close> is a run that reached the end of the script\<close>
  "exit_code r = (case r of None \<Rightarrow> 0 | Some (SystemExit n) \<Rightarrow> n | Some _ \<Rightarrow> 1)"

definition emit :: "event \<Rightarrow> state \<Rightarrow> state" where
  "emit e s = s\<lparr>trace := trace s @ [e]\<rparr>"

definition check_output :: "command \<Rightarrow> nat \<Rightarrow> state \<Rightarrow> exn option \<times> state" where
  \<comment> \<open>\<^verbatim>\<open>subprocess.check_output(cmd, shell=True)\<close> when the command returns \<open>rc\<close>\<close>
  "check_output cmd rc s =
     (if rc \<noteq> 0 then (Some (CalledProcessError rc cmd), emit (Cmd cmd) s)
      else (None, emit (Cmd cmd) s))"

definition call :: "command \<Rightarrow> nat \<Rightarrow> state \<Rightarrow> nat \<times> state" where
  \<comment> \<open>\<^verbatim>\<open>subprocess.call(cmd, shell=True)\<close>: the return code is the result\<close>
  "call cmd rc s = (rc, emit (Cmd cmd) s)"

definition git_checkout :: "world \<Rightarrow> nat \<Rightarrow> state \<Rightarrow> exn option \<times> state" where
  "git_checkout w rc s =
     (case check_output GitCheckout rc s of
        (Some e, s') \<Rightarrow> (Some e, s')
      | (None, s') \<Rightarrow> (None, s'\<lparr>disk := indexed w\<rparr>))"

definition tree_write :: "element \<Rightarrow> state \<Rightarrow> state" where
  "tree_write root s = (emit (WriteManifest root) s)\<lparr>disk := Document root\<rparr>"

subsection \<open>\<^verbatim>\<open>get_head_sha\<close> (lines 21 to 29)\<close>

definition get_head_sha :: "world \<Rightarrow> state \<Rightarrow> (exn + string) \<times> state" where
  "get_head_sha w s =
     (let s1 = emit (Cmd GitRevParse) s in
      if rev_parse_rc w \<noteq> 0
      then (Inl (SystemExit 1), emit (LogError (CommandFailed GitRevParse)) s1)
      else (Inr (strip (rev_parse_out w)), s1))"

subsection \<open>Lines 40 to 61: restore, read the version, choose the channel\<close>

record vars =
  tree :: element
  version :: element          \<comment> \<open>the \<^verbatim>\<open>version\<close> child as it stands\<close>
  channel :: string
  sha :: "string option"      \<comment> \<open>\<open>None\<close>: the name \<^verbatim>\<open>sha\<close> is not bound\<close>

definition prepare :: "world \<Rightarrow> state \<Rightarrow> (exn + vars) \<times> state" where
  "prepare w s =
     (case git_checkout w (checkout_first_rc w) s of
        (Some e, s1) \<Rightarrow> (Inl e, s1)
      | (None, s1) \<Rightarrow>
         (case disk s1 of
            Malformed \<Rightarrow> (Inl ParseError, s1)
          | Document root \<Rightarrow>
             (case find_el root ''version'' of
                None \<Rightarrow> (Inl (SystemExit 1), emit (LogError VersionTagNotFound) s1)
              | Some v \<Rightarrow>
                  if arg_tag w \<noteq> []
                  then (Inr \<lparr>tree = root, version = v, channel = CHANNEL_STABLE, sha = None\<rparr>, s1)
                  else
                    (case get_head_sha w s1 of
                       (Inl e, s2) \<Rightarrow> (Inl e, s2)
                     | (Inr h, s2) \<Rightarrow>
                        (let s3 = emit (LogInfo (AppendSha h)) s2;
                             t = py_str (etext v) @ ''.'' @ h;
                             root' = set_text root ''version'' t;
                             s4 = tree_write root' s3
                         in (Inr \<lparr>tree = root',
                                  version = Element (etag v) (Some t) (echildren v),
                                  channel = CHANNEL_BLEEDING_EDGE, sha = Some h\<rparr>, s4))))))"

subsection \<open>Lines 63 to 91: build and package, then restore the manifest\<close>

definition zip_name :: "vars \<Rightarrow> string" where
  "zip_name x = ''pants_'' @ py_str (etext (version x)) @ ''.zip''"

definition try_body :: "world \<Rightarrow> string \<Rightarrow> state \<Rightarrow> exn option \<times> state" where
  "try_body w z s =
     (case check_output BuildJar (build_rc w) (emit (LogInfo (Running BuildJar)) s) of
        (Some e, s1) \<Rightarrow> (Some e, s1)
      | (None, s1) \<Rightarrow>
         (case check_output (Packaging z) (packaging_rc w)
                 (emit (LogInfo (Running (Packaging z))) (emit (LogInfo PackagingIntoZip) s1)) of
            (Some e, s2) \<Rightarrow> (Some e, s2)
          | (None, s2) \<Rightarrow> (None, emit (LogInfo (BuiltSuccessfully z)) s2)))"

definition try_finally :: "world \<Rightarrow> string \<Rightarrow> state \<Rightarrow> exn option \<times> state" where
  \<comment> \<open>the \<^verbatim>\<open>finally\<close> clause runs after the body however it ended; an exception of
      the clause itself replaces the one of the body\<close>
  "try_finally w z s =
     (case try_body w z s of
        (r, s1) \<Rightarrow>
          (case git_checkout w (checkout_final_rc w) s1 of
             (Some e, s2) \<Rightarrow> (Some e, s2)
           | (None, s2) \<Rightarrow> (r, s2)))"

subsection \<open>Lines 93 to 108: upload\<close>

definition upload :: "world \<Rightarrow> vars \<Rightarrow> state \<Rightarrow> exn option \<times> state" where
  "upload w x s =
     (case environ w ''USERNAME'' of
        None \<Rightarrow> (Some (KeyError ''USERNAME''), s)
      | Some username \<Rightarrow>
         (case environ w ''PASSWORD'' of
            None \<Rightarrow> (Some (KeyError ''PASSWORD''), s)
          | Some password \<Rightarrow>
             (case call (Upload (channel x) username password (zip_name x)) (upload_rc w)
                     (emit (LogInfo Uploading) s) of
                (rc, s1) \<Rightarrow> (None, s1))))"

subsection \<open>Lines 110 to 118: look for the commit on the registry page\<close>

definition verify_rc :: "world \<Rightarrow> string \<Rightarrow> nat" where
  \<comment> \<open>the status of the pipeline \<^verbatim>\<open>curl REPO | grep h\<close> is the status of \<^verbatim>\<open>grep\<close>\<close>
  "verify_rc w h =
     (if is_object_name h then (if grep_selects h (page w) then 0 else 1)
      else other_grep_rc w)"

definition verify :: "world \<Rightarrow> vars \<Rightarrow> state \<Rightarrow> exn option \<times> state" where
  "verify w x s =
     (case sha x of
        None \<Rightarrow> (Some (NameError ''sha''), s)
      | Some h \<Rightarrow>
         (case check_output (CurlGrep h) (verify_rc w h) s of
            (Some (CalledProcessError rc c), s1) \<Rightarrow> (None, emit (LogError DeployFailed) s1)
          | (Some e, s1) \<Rightarrow> (Some e, s1)
          | (None, s1) \<Rightarrow> (None, emit (LogInfo DeploySucceeded) s1)))"

subsection \<open>The script\<close>

definition release :: "world \<Rightarrow> vars \<Rightarrow> state \<Rightarrow> exn option \<times> state" where
  "release w x s =
     (case try_finally w (zip_name x)
             (emit (LogInfo (Releasing (py_str (etext (version x))) (channel x))) s) of
        (Some e, s1) \<Rightarrow> (Some e, s1)
      | (None, s1) \<Rightarrow>
         (case upload w x s1 of
            (Some e, s2) \<Rightarrow> (Some e, s2)
          | (None, s2) \<Rightarrow> verify w x s2))"

definition start :: "world \<Rightarrow> state" where
  "start w = \<lparr>disk = disk_before w, trace = []\<rparr>"

definition main :: "world \<Rightarrow> exn option \<times> state" where
  "main w =
     (case prepare w (start w) of
        (Inl e, s) \<Rightarrow> (Some e, s)
      | (Inr x, s) \<Rightarrow> release w x s)"

subsection \<open>Sample runs\<close>

text \<open>
  A nightly run in which every command succeeds and the uploader returns 1 all the same,
  and variations of it.
\<close>

definition manifest_123 :: element where
  "manifest_123 = Element ''idea-plugin'' None
     [Element ''name'' (Some ''Pants Support'') [], Element ''version'' (Some ''1.2.3'') []]"

definition manifest_edited :: element where
  "manifest_edited = Element ''idea-plugin'' None
     [Element ''name'' (Some ''Pants Support'') [], Element ''version'' (Some ''9.9.9'') []]"

definition manifest_no_version :: element where
  "manifest_no_version = Element ''idea-plugin'' None [Element ''name'' (Some ''Pants Support'') []]"

definition nightly_world :: world where
  "nightly_world = \<lparr>arg_tag = [], disk_before = Document manifest_123,
     committed = Document manifest_123, indexed = Document manifest_123,
     checkout_first_rc = 0, rev_parse_rc = 0, rev_parse_out = ''abcd123'' @ [CHR 0x0A],
     build_rc = 0, packaging_rc = 0, checkout_final_rc = 0,
     environ = [''USERNAME'' \<mapsto> ''bot'', ''PASSWORD'' \<mapsto> ''pw''],
     upload_rc = 1, page = ''<li>1.2.3.abcd123</li>'', other_grep_rc = 2\<rparr>"

definition tagged_world :: world where
  "tagged_world = nightly_world\<lparr>arg_tag := ''1.2.3''\<rparr>"

definition dirty_world :: world where
  \<comment> \<open>the manifest was edited and the edit is not staged\<close>
  "dirty_world = nightly_world\<lparr>disk_before := Document manifest_edited\<rparr>"

definition staged_edit_world :: world where
  \<comment> \<open>the manifest was edited and the edit is staged with \<^verbatim>\<open>git add\<close>, not committed\<close>
  "staged_edit_world =
     nightly_world\<lparr>disk_before := Document manifest_edited, indexed := Document manifest_edited\<rparr>"

definition broken_build_world :: world where
  "broken_build_world = nightly_world\<lparr>build_rc := 2\<rparr>"

definition no_version_world :: world where
  "no_version_world = nightly_world\<lparr>indexed := Document manifest_no_version\<rparr>"

definition nightly_vars :: vars where
  "nightly_vars = \<lparr>tree = Element ''idea-plugin'' None
                       [Element ''name'' (Some ''Pants Support'') [],
                        Element ''version'' (Some ''1.2.3.abcd123'') []],
                    version = Element ''version'' (Some ''1.2.3.abcd123'') [],
                    channel = ''BleedingEdge'', sha = Some ''abcd123''\<rparr>"

definition tagged_vars :: vars where
  "tagged_vars = \<lparr>tree = manifest_123, version = Element ''version'' (Some ''1.2.3'') [],
                   channel = ''Stable'', sha = None\<rparr>"

section \<open>The steps, one at a time\<close>

text \<open>
  Each step of the script as one equation from the return codes to the result and the
  effects appended to the trace.
\<close>

lemma try_body_flat:
  "try_body w z s =
     (if build_rc w \<noteq> 0
      then (Some (CalledProcessError (build_rc w) BuildJar),
            s\<lparr>trace := trace s @ [LogInfo (Running BuildJar), Cmd BuildJar]\<rparr>)
      else if packaging_rc w \<noteq> 0
      then (Some (CalledProcessError (packaging_rc w) (Packaging z)),
            s\<lparr>trace := trace s @ [LogInfo (Running BuildJar), Cmd BuildJar, LogInfo PackagingIntoZip,
                                   LogInfo (Running (Packaging z)), Cmd (Packaging z)]\<rparr>)
      else (None,
            s\<lparr>trace := trace s @ [LogInfo (Running BuildJar), Cmd BuildJar, LogInfo PackagingIntoZip,
                                   LogInfo (Running (Packaging z)), Cmd (Packaging z),
                                   LogInfo (BuiltSuccessfully z)]\<rparr>))"
  by (simp add: try_body_def check_output_def emit_def)

lemma try_finally_flat:
  "try_finally w z s =
     (case try_body w z s of
        (r, s1) \<Rightarrow>
          if checkout_final_rc w \<noteq> 0
          then (Some (CalledProcessError (checkout_final_rc w) GitCheckout),
                s1\<lparr>trace := trace s1 @ [Cmd GitCheckout]\<rparr>)
          else (r, s1\<lparr>trace := trace s1 @ [Cmd GitCheckout], disk := indexed w\<rparr>))"
  by (simp add: try_finally_def git_checkout_def check_output_def emit_def split: prod.splits)

lemma upload_flat:
  "upload w x s =
     (case environ w ''USERNAME'' of
        None \<Rightarrow> (Some (KeyError ''USERNAME''), s)
      | Some u \<Rightarrow>
         (case environ w ''PASSWORD'' of
            None \<Rightarrow> (Some (KeyError ''PASSWORD''), s)
          | Some p \<Rightarrow>
             (None, s\<lparr>trace := trace s @ [LogInfo Uploading,
                                           Cmd (Upload (channel x) u p (zip_name x))]\<rparr>)))"
  by (simp add: upload_def call_def emit_def split: option.splits)

lemma verify_flat:
  "verify w x s =
     (case sha x of
        None \<Rightarrow> (Some (NameError ''sha''), s)
      | Some h \<Rightarrow>
         (None, s\<lparr>trace := trace s @ [Cmd (CurlGrep h),
                     if verify_rc w h \<noteq> 0 then LogError DeployFailed else LogInfo DeploySucceeded]\<rparr>))"
  by (simp add: verify_def check_output_def emit_def split: option.splits)

lemma release_flat:
  "release w x s =
     (case try_finally w (zip_name x)
             (s\<lparr>trace := trace s @ [LogInfo (Releasing (py_str (etext (version x))) (channel x))]\<rparr>) of
        (Some e, s1) \<Rightarrow> (Some e, s1)
      | (None, s1) \<Rightarrow>
         (case upload w x s1 of
            (Some e, s2) \<Rightarrow> (Some e, s2)
          | (None, s2) \<Rightarrow> verify w x s2))"
  by (simp add: release_def emit_def)

lemmas flat = release_flat try_finally_flat try_body_flat upload_flat verify_flat

lemma prepare_flat:
  "prepare w s =
     (if checkout_first_rc w \<noteq> 0
      then (Inl (CalledProcessError (checkout_first_rc w) GitCheckout),
            s\<lparr>trace := trace s @ [Cmd GitCheckout]\<rparr>)
      else
        (case indexed w of
           Malformed \<Rightarrow>
             (Inl ParseError, s\<lparr>trace := trace s @ [Cmd GitCheckout], disk := indexed w\<rparr>)
         | Document root \<Rightarrow>
            (case find_el root ''version'' of
               None \<Rightarrow>
                 (Inl (SystemExit 1),
                  s\<lparr>trace := trace s @ [Cmd GitCheckout, LogError VersionTagNotFound],
                    disk := indexed w\<rparr>)
             | Some v \<Rightarrow>
                 if arg_tag w \<noteq> []
                 then (Inr \<lparr>tree = root, version = v, channel = CHANNEL_STABLE, sha = None\<rparr>,
                       s\<lparr>trace := trace s @ [Cmd GitCheckout], disk := indexed w\<rparr>)
                 else if rev_parse_rc w \<noteq> 0
                 then (Inl (SystemExit 1),
                       s\<lparr>trace := trace s @ [Cmd GitCheckout, Cmd GitRevParse,
                                              LogError (CommandFailed GitRevParse)],
                         disk := indexed w\<rparr>)
                 else
                   (Inr \<lparr>tree = set_text root ''version''
                                  (py_str (etext v) @ ''.'' @ strip (rev_parse_out w)),
                         version = Element (etag v)
                                     (Some (py_str (etext v) @ ''.'' @ strip (rev_parse_out w)))
                                     (echildren v),
                         channel = CHANNEL_BLEEDING_EDGE,
                         sha = Some (strip (rev_parse_out w))\<rparr>,
                    s\<lparr>trace := trace s @ [Cmd GitCheckout, Cmd GitRevParse,
                                           LogInfo (AppendSha (strip (rev_parse_out w))),
                                           WriteManifest (set_text root ''version''
                                             (py_str (etext v) @ ''.'' @ strip (rev_parse_out w)))],
                      disk := Document (set_text root ''version''
                                 (py_str (etext v) @ ''.'' @ strip (rev_parse_out w)))\<rparr>))))"
  by (simp add: prepare_def git_checkout_def check_output_def get_head_sha_def emit_def
        tree_write_def Let_def split: manifest_file.splits option.splits)

subsection \<open>What lines 40 to 61 leave behind\<close>

lemma prepare_events:
  "prepare w (start w) = (res, s) \<Longrightarrow>
     set (trace s) \<subseteq> {Cmd GitCheckout, Cmd GitRevParse, LogError VersionTagNotFound,
                       LogError (CommandFailed GitRevParse)}
                      \<union> range (\<lambda>h. LogInfo (AppendSha h)) \<union> range WriteManifest
   \<and> (\<exists>rest. trace s = Cmd GitCheckout # rest)
   \<and> (arg_tag w \<noteq> [] \<longrightarrow> Cmd GitRevParse \<notin> set (trace s))"
  by (auto simp: prepare_flat start_def split: if_splits manifest_file.splits option.splits)

lemma prepare_indexed:
  "prepare w s = (Inr x, s') \<Longrightarrow>
     \<exists>root v. indexed w = Document root \<and> find_el root ''version'' = Some v"
  by (simp add: prepare_flat split: if_splits manifest_file.splits option.splits)

lemma prepare_reads_indexed:
  "prepare w s = (Inr x, s') \<Longrightarrow> \<exists>v. read_version (indexed w) = Some v"
  using prepare_indexed [of w s x s'] by (auto simp: read_version_def)

lemma prepare_stable:
  assumes "prepare w s = (Inr x, s')" "arg_tag w \<noteq> []"
    and "indexed w = Document root" "find_el root ''version'' = Some v"
  shows "x = \<lparr>tree = root, version = v, channel = CHANNEL_STABLE, sha = None\<rparr>"
    and "s' = s\<lparr>trace := trace s @ [Cmd GitCheckout], disk := indexed w\<rparr>"
  using assms by (simp_all add: prepare_flat split: if_splits)

lemma prepare_edge:
  assumes "prepare w s = (Inr x, s')" "arg_tag w = []"
    and "indexed w = Document root" "find_el root ''version'' = Some v"
  shows "x = \<lparr>tree = set_text root ''version'' (py_str (etext v) @ ''.'' @ strip (rev_parse_out w)),
              version = Element (etag v) (Some (py_str (etext v) @ ''.'' @ strip (rev_parse_out w)))
                          (echildren v),
              channel = CHANNEL_BLEEDING_EDGE, sha = Some (strip (rev_parse_out w))\<rparr>"
    and "s' = s\<lparr>trace := trace s @ [Cmd GitCheckout, Cmd GitRevParse,
                                      LogInfo (AppendSha (strip (rev_parse_out w))),
                                      WriteManifest (tree x)],
                 disk := Document (tree x)\<rparr>"
  using assms by (auto simp: prepare_flat split: if_splits)

lemma prepare_channel:
  assumes "prepare w s = (Inr x, s')"
  shows "channel x = (if arg_tag w \<noteq> [] then CHANNEL_STABLE else CHANNEL_BLEEDING_EDGE)"
    and "sha x = None \<longleftrightarrow> arg_tag w \<noteq> []"
proof -
  from prepare_indexed [OF assms] obtain root v
    where rv: "indexed w = Document root" "find_el root ''version'' = Some v"
    by blast
  show "channel x = (if arg_tag w \<noteq> [] then CHANNEL_STABLE else CHANNEL_BLEEDING_EDGE)"
    using prepare_stable(1) [OF assms _ rv] prepare_edge(1) [OF assms _ rv]
    by (cases "arg_tag w = []") simp_all
  show "sha x = None \<longleftrightarrow> arg_tag w \<noteq> []"
    using prepare_stable(1) [OF assms _ rv] prepare_edge(1) [OF assms _ rv]
    by (cases "arg_tag w = []") simp_all
qed

lemma prepare_sha:
  assumes "prepare w s = (Inr x, s')"
  shows "sha x = (if arg_tag w \<noteq> [] then None else Some (strip (rev_parse_out w)))"
proof -
  from prepare_indexed [OF assms] obtain root v
    where rv: "indexed w = Document root" "find_el root ''version'' = Some v"
    by blast
  show ?thesis
    using prepare_stable(1) [OF assms _ rv] prepare_edge(1) [OF assms _ rv]
    by (cases "arg_tag w = []") simp_all
qed

lemma prepare_version:
  assumes "prepare w s = (Inr x, s')" "read_version (indexed w) = Some v"
  shows "py_str (etext (version x)) =
           (if arg_tag w \<noteq> [] then py_str (etext v)
            else py_str (etext v) @ ''.'' @ strip (rev_parse_out w))"
proof -
  from prepare_indexed [OF assms(1)] obtain root v'
    where rv: "indexed w = Document root" "find_el root ''version'' = Some v'"
    by blast
  with assms(2) have "v' = v"
    by (simp add: read_version_def)
  with prepare_stable(1) [OF assms(1) _ rv] prepare_edge(1) [OF assms(1) _ rv] show ?thesis
    by (cases "arg_tag w = []") (simp_all add: py_str_def)
qed

lemma prepare_abort:
  "prepare w s = (Inl e, s') \<Longrightarrow>
     e \<noteq> NameError ''sha'' \<and> exit_code (Some e) = 1
     \<and> (disk s' = disk s \<or> disk s' = indexed w)
     \<and> (checkout_first_rc w = 0 \<longrightarrow> disk s' = indexed w)"
  by (auto simp: prepare_flat exit_code_def split: if_splits manifest_file.splits option.splits)

lemma prepare_succeeds:
  assumes "checkout_first_rc w = 0" "read_version (indexed w) = Some v"
    and "arg_tag w \<noteq> [] \<or> rev_parse_rc w = 0"
  shows "\<exists>x s'. prepare w s = (Inr x, s')"
  using assms
  by (cases "indexed w") (auto simp: prepare_flat read_version_def)

lemma prepare_start_disk:
  "fst (prepare w (s\<lparr>disk := d\<rparr>)) = fst (prepare w s)"
  "trace (snd (prepare w (s\<lparr>disk := d\<rparr>))) = trace (snd (prepare w s))"
  "checkout_first_rc w = 0 \<Longrightarrow> prepare w (s\<lparr>disk := d\<rparr>) = prepare w s"
  by (simp_all add: prepare_flat split: manifest_file.splits option.splits)

lemma prepare_upload_rc: "prepare (w\<lparr>upload_rc := k\<rparr>) s = prepare w s"
  by (simp add: prepare_flat cong: if_cong option.case_cong manifest_file.case_cong)

lemma prepare_disk_before: "prepare (w\<lparr>disk_before := d\<rparr>) s = prepare w s"
  by (simp add: prepare_flat cong: if_cong option.case_cong manifest_file.case_cong)

lemma prepare_head: "prepare (w\<lparr>committed := c\<rparr>) s = prepare w s"
  by (simp add: prepare_flat cong: if_cong option.case_cong manifest_file.case_cong)

subsection \<open>What lines 63 to 118 do\<close>

lemma release_disk:
  "release w x s = (r, s') \<Longrightarrow> checkout_final_rc w = 0 \<Longrightarrow> disk s' = indexed w"
  by (auto simp: flat split: if_splits option.splits)

lemma release_restores_after_build:
  "release w x s = (r, s') \<Longrightarrow>
     \<exists>post. trace s' = trace s @ [LogInfo (Releasing (py_str (etext (version x))) (channel x)),
                                   LogInfo (Running BuildJar), Cmd BuildJar] @ post
            \<and> Cmd GitCheckout \<in> set post"
  by (auto simp: flat split: if_splits option.splits)

lemma release_exit_code:
  "exit_code (fst (release w x s)) =
     (if sha x = None \<or> build_rc w \<noteq> 0 \<or> packaging_rc w \<noteq> 0 \<or> checkout_final_rc w \<noteq> 0
         \<or> environ w ''USERNAME'' = None \<or> environ w ''PASSWORD'' = None
      then 1 else 0)"
  by (auto simp: flat exit_code_def split: if_splits option.splits)

lemma release_artifact:
  "release w x s = (r, s') \<Longrightarrow>
     (\<forall>z. Cmd (Packaging z) \<in> set (trace s') \<longrightarrow> Cmd (Packaging z) \<in> set (trace s) \<or> z = zip_name x)
   \<and> (\<forall>ch u p z. Cmd (Upload ch u p z) \<in> set (trace s') \<longrightarrow>
          Cmd (Upload ch u p z) \<in> set (trace s) \<or> (ch = channel x \<and> z = zip_name x))
   \<and> (\<forall>v ch. LogInfo (Releasing v ch) \<in> set (trace s') \<longrightarrow>
          LogInfo (Releasing v ch) \<in> set (trace s) \<or> (v = py_str (etext (version x)) \<and> ch = channel x))
   \<and> (build_rc w = 0 \<longrightarrow> Cmd (Packaging (zip_name x)) \<in> set (trace s'))"
  by (auto simp: flat split: if_splits option.splits)

lemma release_after_upload:
  "release w x s = (r, s') \<Longrightarrow> LogInfo Uploading \<in> set (trace s') \<Longrightarrow> LogInfo Uploading \<notin> set (trace s) \<Longrightarrow>
     (case sha x of
        None \<Rightarrow> r = Some (NameError ''sha'')
      | Some h \<Rightarrow> r = None \<and> Cmd (CurlGrep h) \<in> set (trace s'))"
  by (auto simp: flat split: if_splits option.splits)

lemma release_after_upload_cmd:
  "release w x s = (r, s') \<Longrightarrow> Cmd (Upload ch u p z) \<in> set (trace s') \<Longrightarrow>
   Cmd (Upload ch u p z) \<notin> set (trace s) \<Longrightarrow>
     (case sha x of
        None \<Rightarrow> r = Some (NameError ''sha'')
      | Some h \<Rightarrow> r = None \<and> Cmd (CurlGrep h) \<in> set (trace s'))"
  by (auto simp: flat split: if_splits option.splits)

lemma release_reaches_upload:
  "release w x s = (r, s') \<Longrightarrow> build_rc w = 0 \<Longrightarrow> packaging_rc w = 0 \<Longrightarrow> checkout_final_rc w = 0 \<Longrightarrow>
   environ w ''USERNAME'' \<noteq> None \<Longrightarrow> environ w ''PASSWORD'' \<noteq> None \<Longrightarrow>
     LogInfo Uploading \<in> set (trace s')"
  by (auto simp: flat split: if_splits option.splits)

lemma release_unbound_sha:
  "release w x s = (r, s') \<Longrightarrow> sha x = None \<Longrightarrow>
     (Cmd GitRevParse \<in> set (trace s') \<longrightarrow> Cmd GitRevParse \<in> set (trace s))
   \<and> (LogInfo DeploySucceeded \<in> set (trace s') \<longrightarrow> LogInfo DeploySucceeded \<in> set (trace s))
   \<and> (LogError DeployFailed \<in> set (trace s') \<longrightarrow> LogError DeployFailed \<in> set (trace s))
   \<and> (\<forall>h. Cmd (CurlGrep h) \<in> set (trace s') \<longrightarrow> Cmd (CurlGrep h) \<in> set (trace s))"
  by (auto simp: flat split: if_splits option.splits)

lemma release_upload_rc: "release (w\<lparr>upload_rc := k\<rparr>) x s = release w x s"
  by (simp add: flat verify_rc_def cong: if_cong option.case_cong prod.case_cong)

lemma release_disk_before: "release (w\<lparr>disk_before := d\<rparr>) x s = release w x s"
  by (simp add: flat verify_rc_def cong: if_cong option.case_cong prod.case_cong)

lemma release_head: "release (w\<lparr>committed := c\<rparr>) x s = release w x s"
  by (simp add: flat verify_rc_def cong: if_cong option.case_cong prod.case_cong)

subsection \<open>The whole script\<close>

lemma main_cases:
  obtains (abort) e s' where "prepare w (start w) = (Inl e, s')" "main w = (Some e, s')"
  | (run) x s where "prepare w (start w) = (Inr x, s)" "main w = release w x s"
proof (cases "prepare w (start w)")
  case (Pair res s)
  then show ?thesis
    by (cases res) (auto simp: main_def intro: abort run)
qed

lemma main_exit_code:
  "exit_code (fst (main w)) =
     (case fst (prepare w (start w)) of
        Inl e \<Rightarrow> exit_code (Some e)
      | Inr x \<Rightarrow>
          (if sha x = None \<or> build_rc w \<noteq> 0 \<or> packaging_rc w \<noteq> 0 \<or> checkout_final_rc w \<noteq> 0
              \<or> environ w ''USERNAME'' = None \<or> environ w ''PASSWORD'' = None
           then 1 else 0))"
proof (cases w rule: main_cases)
  case (abort e s')
  then show ?thesis by simp
next
  case (run x s)
  then show ?thesis by (simp add: release_exit_code)
qed

lemma main_first_checkout_failed:
  "checkout_first_rc w \<noteq> 0 \<Longrightarrow>
     main w = (Some (CalledProcessError (checkout_first_rc w) GitCheckout),
               \<lparr>disk = disk_before w, trace = [Cmd GitCheckout]\<rparr>)"
  by (simp add: main_def prepare_flat start_def)

lemma start_disk_before: "start (w\<lparr>disk_before := d\<rparr>) = (start w)\<lparr>disk := d\<rparr>"
  by (simp add: start_def)

lemma stable_exit_code: "arg_tag w \<noteq> [] \<Longrightarrow> exit_code (fst (main w)) = 1"
proof (cases w rule: main_cases)
  case (abort e s')
  then show ?thesis using prepare_abort by simp
next
  case (run x s)
  assume "arg_tag w \<noteq> []"
  with run(1) have "sha x = None" by (simp add: prepare_channel)
  with run(2) show ?thesis by (simp add: release_exit_code)
qed

subsection \<open>The element tree\<close>

lemma find_el_set_text:
  assumes "find_el root name = Some v"
  shows "find_el (set_text root name t) name = Some (Element (etag v) (Some t) (echildren v))"
proof -
  have "List.find (\<lambda>c. etag c = name) cs = Some v \<Longrightarrow>
        List.find (\<lambda>c. etag c = name) (set_first_text name t cs)
          = Some (Element (etag v) (Some t) (echildren v))" for cs
    by (induction cs) (auto split: if_splits)
  with assms show ?thesis
    by (simp add: find_el_def set_text_def)
qed

lemma channels_distinct: "CHANNEL_STABLE \<noteq> CHANNEL_BLEEDING_EDGE"
  by (simp add: CHANNEL_STABLE_def CHANNEL_BLEEDING_EDGE_def)

subsection \<open>Lines of a page and \<^verbatim>\<open>grep\<close>\<close>

text \<open>
  A pattern without a newline is found on some line of a text exactly when it occurs in
  the text.
\<close>

lemma prefix_takeWhile_iff:
  assumes "\<forall>x\<in>set p. P x"
  shows "prefix p (takeWhile P xs) \<longleftrightarrow> prefix p xs"
proof
  assume "prefix p (takeWhile P xs)"
  moreover have "prefix (takeWhile P xs) xs" by (rule takeWhile_is_prefix)
  ultimately show "prefix p xs" by (rule prefix_order.trans)
next
  assume "prefix p xs"
  then obtain r where "xs = p @ r" unfolding prefix_def by blast
  with assms show "prefix p (takeWhile P xs)"
    by (simp add: takeWhile_append2)
qed

lemma split_lines_first: "\<exists>ls. split_lines t = takeWhile (\<lambda>c. c \<noteq> CHR 0x0A) t # ls"
proof (induction t)
  case Nil
  show ?case by simp
next
  case (Cons c cs)
  then obtain ls where "split_lines cs = takeWhile (\<lambda>c. c \<noteq> CHR 0x0A) cs # ls" by blast
  then show ?case by simp
qed

lemma grep_selects_iff:
  assumes nl: "CHR 0x0A \<notin> set pat"
  shows "grep_selects pat t \<longleftrightarrow> sublist pat t"
proof (induction t)
  case Nil
  show ?case by (simp add: grep_selects_def)
next
  case (Cons c cs)
  obtain ls where ls: "split_lines cs = takeWhile (\<lambda>c. c \<noteq> CHR 0x0A) cs # ls"
    using split_lines_first by blast
  have IH: "(sublist pat (takeWhile (\<lambda>c. c \<noteq> CHR 0x0A) cs) \<or> list_ex (sublist pat) ls)
              \<longleftrightarrow> sublist pat cs"
    using Cons ls by (simp add: grep_selects_def)
  show ?case
  proof (cases "c = CHR 0x0A")
    case True
    have "prefix pat (c # cs) \<longleftrightarrow> pat = []"
    proof (cases pat)
      case Nil
      then show ?thesis by simp
    next
      case (Cons a p)
      with nl True have "a \<noteq> c" by auto
      with Cons show ?thesis by simp
    qed
    moreover have "grep_selects pat (c # cs) \<longleftrightarrow> pat = [] \<or> grep_selects pat cs"
      using True by (simp add: grep_selects_def)
    moreover have "pat = [] \<Longrightarrow> sublist pat cs" by simp
    ultimately show ?thesis
      using Cons by (simp only: sublist_Cons_right)
  next
    case False
    have "\<forall>x\<in>set pat. x \<noteq> CHR 0x0A" using nl by blast
    then have "prefix pat (takeWhile (\<lambda>c. c \<noteq> CHR 0x0A) (c # cs)) \<longleftrightarrow> prefix pat (c # cs)"
      by (rule prefix_takeWhile_iff)
    with False have pre: "prefix pat (c # takeWhile (\<lambda>c. c \<noteq> CHR 0x0A) cs) \<longleftrightarrow> prefix pat (c # cs)"
      by simp
    have "grep_selects pat (c # cs)
            \<longleftrightarrow> sublist pat (c # takeWhile (\<lambda>c. c \<noteq> CHR 0x0A) cs) \<or> list_ex (sublist pat) ls"
      using False ls by (simp add: grep_selects_def)
    also have "\<dots> \<longleftrightarrow> prefix pat (c # takeWhile (\<lambda>c. c \<noteq> CHR 0x0A) cs)
                     \<or> sublist pat (takeWhile (\<lambda>c. c \<noteq> CHR 0x0A) cs) \<or> list_ex (sublist pat) ls"
      by (simp only: sublist_Cons_right disj_assoc)
    also have "\<dots> \<longleftrightarrow> prefix pat (c # cs) \<or> sublist pat cs"
      by (simp only: pre IH)
    also have "\<dots> \<longleftrightarrow> sublist pat (c # cs)"
      by (simp only: sublist_Cons_right)
    finally show ?thesis .
  qed
qed

lemma object_name_no_newline:
  assumes "is_object_name h"
  shows "CHR 0x0A \<notin> set h"
proof
  assume "CHR 0x0A \<in> set h"
  moreover from assms have "\<forall>c\<in>set h. c \<in> set ''0123456789abcdef''"
    unfolding is_object_name_def list_all_iff by (rule conjunct2)
  ultimately have "CHR 0x0A \<in> set ''0123456789abcdef''" by blast
  then show False by simp
qed

lemma release_verdict:
  "release w x s = (r, s') \<Longrightarrow> sha x = Some h \<Longrightarrow> is_object_name h \<Longrightarrow>
   LogInfo Uploading \<in> set (trace s') \<Longrightarrow>
   LogInfo DeploySucceeded \<notin> set (trace s) \<Longrightarrow> LogError DeployFailed \<notin> set (trace s) \<Longrightarrow>
   LogInfo Uploading \<notin> set (trace s) \<Longrightarrow>
     r = None
     \<and> (LogInfo DeploySucceeded \<in> set (trace s') \<longleftrightarrow> sublist h (page w))
     \<and> (LogError DeployFailed \<in> set (trace s') \<longleftrightarrow> \<not> sublist h (page w))"
  using grep_selects_iff [OF object_name_no_newline, of h "page w"]
  by (auto simp: flat verify_rc_def split: if_splits option.splits)

subsection \<open>The sample runs, evaluated\<close>

lemmas script_defs = main_def start_def prepare_def release_def try_finally_def try_body_def upload_def
  verify_def git_checkout_def check_output_def call_def get_head_sha_def emit_def tree_write_def Let_def

lemmas world_defs = nightly_world_def tagged_world_def dirty_world_def staged_edit_world_def
  broken_build_world_def
  no_version_world_def manifest_123_def manifest_edited_def manifest_no_version_def

lemmas eval_defs = find_el_def set_text_def py_str_def strip_def is_space_def verify_rc_def
  is_object_name_def grep_selects_def zip_name_def sublist_Cons_right

lemma main_nightly:
  "main nightly_world =
     (None,
      \<lparr>disk = Document manifest_123,
       trace = [Cmd GitCheckout, Cmd GitRevParse, LogInfo (AppendSha ''abcd123''),
                WriteManifest (Element ''idea-plugin'' None
                  [Element ''name'' (Some ''Pants Support'') [],
                   Element ''version'' (Some ''1.2.3.abcd123'') []]),
                LogInfo (Releasing ''1.2.3.abcd123'' ''BleedingEdge''),
                LogInfo (Running BuildJar), Cmd BuildJar, LogInfo PackagingIntoZip,
                LogInfo (Running (Packaging ''pants_1.2.3.abcd123.zip'')),
                Cmd (Packaging ''pants_1.2.3.abcd123.zip''),
                LogInfo (BuiltSuccessfully ''pants_1.2.3.abcd123.zip''),
                Cmd GitCheckout, LogInfo Uploading,
                Cmd (Upload ''BleedingEdge'' ''bot'' ''pw'' ''pants_1.2.3.abcd123.zip''),
                Cmd (CurlGrep ''abcd123''), LogInfo DeploySucceeded]\<rparr>)"
  by (simp add: script_defs world_defs eval_defs CHANNEL_BLEEDING_EDGE_def)

lemma main_tagged:
  "main tagged_world =
     (Some (NameError ''sha''),
      \<lparr>disk = Document manifest_123,
       trace = [Cmd GitCheckout,
                LogInfo (Releasing ''1.2.3'' ''Stable''),
                LogInfo (Running BuildJar), Cmd BuildJar, LogInfo PackagingIntoZip,
                LogInfo (Running (Packaging ''pants_1.2.3.zip'')),
                Cmd (Packaging ''pants_1.2.3.zip''),
                LogInfo (BuiltSuccessfully ''pants_1.2.3.zip''),
                Cmd GitCheckout, LogInfo Uploading,
                Cmd (Upload ''Stable'' ''bot'' ''pw'' ''pants_1.2.3.zip'')]\<rparr>)"
  by (simp add: script_defs world_defs eval_defs CHANNEL_STABLE_def)

lemma main_broken_build:
  "main broken_build_world =
     (Some (CalledProcessError 2 BuildJar),
      \<lparr>disk = Document manifest_123,
       trace = [Cmd GitCheckout, Cmd GitRevParse, LogInfo (AppendSha ''abcd123''),
                WriteManifest (Element ''idea-plugin'' None
                  [Element ''name'' (Some ''Pants Support'') [],
                   Element ''version'' (Some ''1.2.3.abcd123'') []]),
                LogInfo (Releasing ''1.2.3.abcd123'' ''BleedingEdge''),
                LogInfo (Running BuildJar), Cmd BuildJar, Cmd GitCheckout]\<rparr>)"
  by (simp add: script_defs world_defs eval_defs CHANNEL_BLEEDING_EDGE_def)

lemma main_no_version:
  "main no_version_world =
     (Some (SystemExit 1),
      \<lparr>disk = Document manifest_no_version,
       trace = [Cmd GitCheckout, LogError VersionTagNotFound]\<rparr>)"
  by (simp add: script_defs world_defs eval_defs)

lemma main_dirty: "main dirty_world = main nightly_world"
  by (simp add: script_defs world_defs eval_defs)

lemma prepare_nightly:
  "prepare nightly_world (start nightly_world) =
     (Inr nightly_vars,
      \<lparr>disk = Document (tree nightly_vars),
       trace = [Cmd GitCheckout, Cmd GitRevParse, LogInfo (AppendSha ''abcd123''),
                WriteManifest (tree nightly_vars)]\<rparr>)"
  by (simp add: prepare_flat start_def world_defs eval_defs nightly_vars_def CHANNEL_BLEEDING_EDGE_def)

lemma prepare_tagged:
  "prepare tagged_world (start tagged_world) =
     (Inr tagged_vars, \<lparr>disk = Document manifest_123, trace = [Cmd GitCheckout]\<rparr>)"
  by (simp add: prepare_flat start_def world_defs eval_defs tagged_vars_def CHANNEL_STABLE_def)

lemma nightly_command_lines:
  "command_line (Packaging ''pants_1.2.3.abcd123.zip'') =
     ''mkdir -p tmp/pants/lib && cp dist/intellij-pants-plugin-publish.jar tmp/pants/lib && cd tmp && zip -r pants_1.2.3.abcd123.zip pants/ &&cd .. &&cp tmp/pants_1.2.3.abcd123.zip pants_1.2.3.abcd123.zip &&rm -rf tmp''"
  "command_line (CurlGrep ''abcd123'') = ''curl https://plugins.jetbrains.com/plugin/7412 | grep abcd123''"
  "message_text (Releasing ''1.2.3.abcd123'' ''BleedingEdge'') =
     ''Releasing 1.2.3.abcd123 to BleedingEdge channel''"
  by (simp_all add: PLUGIN_JAR_def REPO_def)

section \<open>The manifest after the run\<close>

text \<open>
  A run that starts with a locally edited manifest, the edit not staged, ends with the
  manifest of the index on disk: the content after the run is not the content before it.
\<close>

theorem manifest_round_trip_counterexample:
  "disk (snd (main dirty_world)) \<noteq> disk_before dirty_world"
  by (simp add: main_dirty main_nightly) (simp add: world_defs)

text \<open>
  And when the checkout of line 91 fails, a run without a tag leaves the manifest with the
  commit hash in its version.
\<close>

lemma failed_restore_leaves_manifest_mutated:
  "disk (snd (main (nightly_world\<lparr>checkout_final_rc := 1\<rparr>)))
     \<noteq> disk_before (nightly_world\<lparr>checkout_final_rc := 1\<rparr>)"
  by (simp add: script_defs world_defs eval_defs)

text \<open>
  Claim C1, as the script has it. When the manifest on disk before the run is the one of
  the index, as it is when it has no uncommitted modification, and the checkout of line 91
  succeeds, the manifest after the run is the manifest before the run. Whenever the build
  command has run, the restoring checkout runs after it, whether the build and the
  packaging succeeded or failed.
\<close>

theorem manifest_restored_when_clean:
  "(disk_before w = indexed w \<and> checkout_final_rc w = 0 \<longrightarrow> disk (snd (main w)) = disk_before w)
   \<and> (Cmd BuildJar \<in> set (trace (snd (main w))) \<longrightarrow>
        Cmd GitCheckout \<in> set (dropWhile (\<lambda>e. e \<noteq> Cmd BuildJar) (trace (snd (main w)))))"
proof (cases w rule: main_cases)
  case (abort e s')
  from prepare_abort [OF abort(1)] have "disk s' = disk_before w \<or> disk s' = indexed w"
    by (simp add: start_def)
  moreover from prepare_events [OF abort(1)] have "Cmd BuildJar \<notin> set (trace s')"
    by auto
  ultimately show ?thesis
    using abort(2) by auto
next
  case (run x s)
  obtain r s' where rel: "release w x s = (r, s')"
    by (cases "release w x s")
  from release_restores_after_build [OF rel] obtain post
    where post: "trace s' = trace s @ [LogInfo (Releasing (py_str (etext (version x))) (channel x)),
                                       LogInfo (Running BuildJar), Cmd BuildJar] @ post"
                "Cmd GitCheckout \<in> set post"
    by blast
  from prepare_events [OF run(1)] have "\<forall>e\<in>set (trace s). e \<noteq> Cmd BuildJar"
    by auto
  with post have "Cmd GitCheckout \<in> set (dropWhile (\<lambda>e. e \<noteq> Cmd BuildJar) (trace s'))"
    by (simp add: dropWhile_append)
  moreover have "checkout_final_rc w = 0 \<Longrightarrow> disk s' = indexed w"
    using rel by (rule release_disk)
  ultimately show ?thesis
    using run(2) rel by simp
qed

theorem manifest_restored_when_clean_witness:
  "disk_before broken_build_world = indexed broken_build_world
   \<and> checkout_final_rc broken_build_world = 0
   \<and> disk (snd (main broken_build_world)) = disk_before broken_build_world
   \<and> Cmd BuildJar \<in> set (trace (snd (main broken_build_world)))
   \<and> Cmd GitCheckout \<in> set (dropWhile (\<lambda>e. e \<noteq> Cmd BuildJar) (trace (snd (main broken_build_world))))"
  using manifest_restored_when_clean [of broken_build_world]
  by (simp add: main_broken_build) (simp add: world_defs)

section \<open>The exit status\<close>

text \<open>
  A failed build ends the process with status 1, although the version field is there and
  the commit hash was resolved: the \<^verbatim>\<open>try\<close> of line 68 has a
  \<^verbatim>\<open>finally\<close> clause and no \<^verbatim>\<open>except\<close> clause.
\<close>

theorem exit_code_counterexample:
  "indexed broken_build_world = Document manifest_123
   \<and> find_el manifest_123 ''version'' \<noteq> None
   \<and> rev_parse_rc broken_build_world = 0
   \<and> exit_code (fst (main broken_build_world)) = 1"
  by (simp add: main_broken_build exit_code_def) (simp add: world_defs find_el_def)

text \<open>
  Claim C2, as the script has it. Without a tag the process ends with status 1 exactly
  when the first checkout fails, the manifest does not parse or has no version element,
  the commit hash cannot be resolved, the build or the packaging command fails, the
  checkout of line 91 fails, or a credential is missing from the environment. Otherwise it
  ends with status 0, whatever the uploader returns and whatever the registry page holds.
\<close>

theorem bleeding_edge_exit_code:
  "arg_tag w = [] \<Longrightarrow>
   exit_code (fst (main w)) =
     (if checkout_first_rc w \<noteq> 0
         \<or> (case indexed w of Malformed \<Rightarrow> True
             | Document root \<Rightarrow> find_el root ''version'' = None)
         \<or> rev_parse_rc w \<noteq> 0 \<or> build_rc w \<noteq> 0 \<or> packaging_rc w \<noteq> 0
         \<or> checkout_final_rc w \<noteq> 0
         \<or> environ w ''USERNAME'' = None \<or> environ w ''PASSWORD'' = None
      then 1 else 0)"
  unfolding main_exit_code
  by (simp add: prepare_flat exit_code_def split: manifest_file.splits option.splits)

theorem bleeding_edge_exit_code_witness:
  "arg_tag (nightly_world\<lparr>page := []\<rparr>) = []
   \<and> upload_rc (nightly_world\<lparr>page := []\<rparr>) \<noteq> 0
   \<and> LogError DeployFailed \<in> set (trace (snd (main (nightly_world\<lparr>page := []\<rparr>))))
   \<and> exit_code (fst (main (nightly_world\<lparr>page := []\<rparr>))) = 0"
  using bleeding_edge_exit_code [of "nightly_world\<lparr>page := []\<rparr>"]
  by (simp add: script_defs world_defs eval_defs)

section \<open>Channel, version and artifact name\<close>

text \<open>
  Claim C3. Whenever lines 40 to 61 get as far as choosing a channel, a non-empty tag gives
  the channel Stable and an empty tag gives BleedingEdge; the two differ, and the channel so
  chosen is the one announced in the log and handed to the uploader.
\<close>

theorem channel_from_tag:
  assumes "fst (prepare w (start w)) = Inr x"
  shows "(arg_tag w \<noteq> [] \<longrightarrow> channel x = CHANNEL_STABLE)
       \<and> (arg_tag w = [] \<longrightarrow> channel x = CHANNEL_BLEEDING_EDGE)
       \<and> CHANNEL_STABLE \<noteq> CHANNEL_BLEEDING_EDGE
       \<and> (\<forall>v ch. LogInfo (Releasing v ch) \<in> set (trace (snd (main w))) \<longrightarrow> ch = channel x)
       \<and> (\<forall>ch u p z. Cmd (Upload ch u p z) \<in> set (trace (snd (main w))) \<longrightarrow> ch = channel x)"
proof -
  obtain s where prep: "prepare w (start w) = (Inr x, s)"
    using assms by (cases "prepare w (start w)") simp
  then have m: "main w = release w x s"
    by (simp add: main_def)
  obtain r s' where rel: "release w x s = (r, s')"
    by (cases "release w x s")
  from prepare_events [OF prep]
  have quiet: "LogInfo (Releasing v ch) \<notin> set (trace s)" "Cmd (Upload ch u p z) \<notin> set (trace s)"
    for v ch u p z
    by auto
  from prepare_channel(1) [OF prep]
  have "(arg_tag w \<noteq> [] \<longrightarrow> channel x = CHANNEL_STABLE)
      \<and> (arg_tag w = [] \<longrightarrow> channel x = CHANNEL_BLEEDING_EDGE)"
    by simp
  with release_artifact [OF rel] quiet channels_distinct show ?thesis
    by (simp add: m rel)
qed

theorem channel_from_tag_witness:
  "fst (prepare nightly_world (start nightly_world)) = Inr nightly_vars
   \<and> arg_tag nightly_world = [] \<and> channel nightly_vars = CHANNEL_BLEEDING_EDGE
   \<and> fst (prepare tagged_world (start tagged_world)) = Inr tagged_vars
   \<and> arg_tag tagged_world \<noteq> [] \<and> channel tagged_vars = CHANNEL_STABLE"
proof -
  have n: "fst (prepare nightly_world (start nightly_world)) = Inr nightly_vars"
    by (simp add: prepare_nightly)
  have t: "fst (prepare tagged_world (start tagged_world)) = Inr tagged_vars"
    by (simp add: prepare_tagged)
  have tn: "arg_tag nightly_world = []" and tt: "arg_tag tagged_world \<noteq> []"
    by (simp_all add: world_defs)
  from channel_from_tag [OF n] tn have cn: "channel nightly_vars = CHANNEL_BLEEDING_EDGE"
    by blast
  from channel_from_tag [OF t] tt have ct: "channel tagged_vars = CHANNEL_STABLE"
    by blast
  from n tn cn t tt ct show ?thesis
    by (intro conjI)
qed

text \<open>
  Claim C4. Let \<open>v\<close> be the version element of the manifest that the checkout of line 42
  puts on disk and line 44 parses. Without a tag the
  released version is the text of \<open>v\<close>, a dot and the stripped output of
  \<^verbatim>\<open>git rev-parse HEAD\<close>; the tree carrying it is written to the manifest file,
  which then reads back that version and differs from the checked-out file. With a tag the
  version element is \<open>v\<close> unchanged, nothing is written and the file on disk is the
  checked-out one. The text is rendered as \<^verbatim>\<open>format\<close> does, so an element without
  text reads \<^verbatim>\<open>None\<close>.
\<close>

theorem version_by_channel:
  assumes "prepare w s = (Inr x, s')" and "read_version (indexed w) = Some v"
  shows "(arg_tag w = [] \<longrightarrow>
            py_str (etext (version x)) = py_str (etext v) @ ''.'' @ strip (rev_parse_out w)
            \<and> trace s' = trace s @ [Cmd GitCheckout, Cmd GitRevParse,
                                     LogInfo (AppendSha (strip (rev_parse_out w))),
                                     WriteManifest (tree x)]
            \<and> disk s' = Document (tree x)
            \<and> read_version (disk s') = Some (version x)
            \<and> disk s' \<noteq> indexed w)
       \<and> (arg_tag w \<noteq> [] \<longrightarrow>
            version x = v \<and> trace s' = trace s @ [Cmd GitCheckout] \<and> disk s' = indexed w)"
proof -
  from prepare_indexed [OF assms(1)] obtain root v'
    where rv: "indexed w = Document root" "find_el root ''version'' = Some v'"
    by blast
  note stable = prepare_stable [OF assms(1) _ rv]
  note edge = prepare_edge [OF assms(1) _ rv]
  from rv assms(2) have v: "v' = v" "find_el root ''version'' = Some v"
    by (simp_all add: read_version_def)
  let ?t = "py_str (etext v) @ ''.'' @ strip (rev_parse_out w)"
  have found: "find_el (set_text root ''version'' ?t) ''version''
                 = Some (Element (etag v) (Some ?t) (echildren v))"
    using v(2) by (rule find_el_set_text)
  have differs: "etext v \<noteq> Some ?t"
    by (cases "etext v") (simp_all add: py_str_def)
  have changed: "set_text root ''version'' ?t \<noteq> root"
  proof
    assume "set_text root ''version'' ?t = root"
    with found v(2) have "v = Element (etag v) (Some ?t) (echildren v)"
      by simp
    then have "etext v = etext (Element (etag v) (Some ?t) (echildren v))"
      by (rule arg_cong)
    with differs show False
      by simp
  qed
  show ?thesis
  proof (intro conjI impI)
    assume e: "arg_tag w = []"
    from edge(1) [OF e] v(1)
    show "py_str (etext (version x)) = py_str (etext v) @ ''.'' @ strip (rev_parse_out w)"
      by (simp add: py_str_def)
    from edge(2) [OF e] show "disk s' = Document (tree x)" by simp
    from edge [OF e] v(1) found show "read_version (disk s') = Some (version x)"
      by (simp add: read_version_def)
    from edge(2) [OF e] show "trace s' = trace s @ [Cmd GitCheckout, Cmd GitRevParse,
                                          LogInfo (AppendSha (strip (rev_parse_out w))),
                                          WriteManifest (tree x)]" by simp
    from edge [OF e] v(1) changed rv(1) show "disk s' \<noteq> indexed w" by simp
  next
    assume t: "arg_tag w \<noteq> []"
    from stable(1) [OF t] v(1) show "version x = v" by simp
    from stable(2) [OF t] show "disk s' = indexed w" by simp
    from stable(2) [OF t] show "trace s' = trace s @ [Cmd GitCheckout]" by simp
  qed
qed

theorem version_by_channel_witness:
  "prepare nightly_world (start nightly_world)
     = (Inr nightly_vars,
        \<lparr>disk = Document (tree nightly_vars),
         trace = [Cmd GitCheckout, Cmd GitRevParse, LogInfo (AppendSha ''abcd123''),
                  WriteManifest (tree nightly_vars)]\<rparr>)
   \<and> read_version (indexed nightly_world) = Some (Element ''version'' (Some ''1.2.3'') [])
   \<and> arg_tag nightly_world = []
   \<and> py_str (etext (version nightly_vars)) = ''1.2.3.abcd123''
   \<and> read_version (Document (tree nightly_vars)) = Some (version nightly_vars)
   \<and> prepare tagged_world (start tagged_world)
     = (Inr tagged_vars, \<lparr>disk = Document manifest_123, trace = [Cmd GitCheckout]\<rparr>)
   \<and> read_version (indexed tagged_world) = Some (Element ''version'' (Some ''1.2.3'') [])
   \<and> arg_tag tagged_world \<noteq> []
   \<and> py_str (etext (version tagged_vars)) = ''1.2.3''"
proof -
  let ?v = "Element ''version'' (Some ''1.2.3'') []"
  have n: "read_version (indexed nightly_world) = Some ?v"
    by (simp add: read_version_def world_defs find_el_def)
  have t: "read_version (indexed tagged_world) = Some ?v"
    by (simp add: read_version_def world_defs find_el_def)
  have tags: "arg_tag nightly_world = []" "arg_tag tagged_world \<noteq> []"
    by (simp_all add: world_defs)
  from version_by_channel [OF prepare_nightly n] tags(1)
  have "py_str (etext (version nightly_vars))
          = py_str (etext ?v) @ ''.'' @ strip (rev_parse_out nightly_world)"
    and r: "read_version (Document (tree nightly_vars)) = Some (version nightly_vars)"
    by simp_all
  then have e: "py_str (etext (version nightly_vars)) = ''1.2.3.abcd123''"
    by (simp add: py_str_def world_defs strip_def is_space_def)
  from version_by_channel [OF prepare_tagged t] tags(2)
  have "version tagged_vars = ?v"
    by simp
  then have s: "py_str (etext (version tagged_vars)) = ''1.2.3''"
    by (simp add: py_str_def)
  from prepare_nightly n tags(1) e r prepare_tagged t tags(2) s show ?thesis
    by (intro conjI)
qed

text \<open>
  Claim C5. The zip name is \<^verbatim>\<open>pants_\<close>, the released version and
  \<^verbatim>\<open>.zip\<close>; every packaging and every upload command of the run carries this name,
  and the packaging command is run whenever the build succeeds. For the version 1.2.3 and
  the commit abcd123 without a tag the name is \<^verbatim>\<open>pants_1.2.3.abcd123.zip\<close>.
\<close>

theorem artifact_name_from_version:
  assumes "fst (prepare w (start w)) = Inr x"
  shows "zip_name x = ''pants_'' @ py_str (etext (version x)) @ ''.zip''
       \<and> (\<forall>z. Cmd (Packaging z) \<in> set (trace (snd (main w))) \<longrightarrow> z = zip_name x)
       \<and> (\<forall>ch u p z. Cmd (Upload ch u p z) \<in> set (trace (snd (main w))) \<longrightarrow> z = zip_name x)
       \<and> (build_rc w = 0 \<longrightarrow> Cmd (Packaging (zip_name x)) \<in> set (trace (snd (main w))))"
proof -
  obtain s where prep: "prepare w (start w) = (Inr x, s)"
    using assms by (cases "prepare w (start w)") simp
  then have m: "main w = release w x s"
    by (simp add: main_def)
  obtain r s' where rel: "release w x s = (r, s')"
    by (cases "release w x s")
  from prepare_events [OF prep]
  have "Cmd (Packaging z) \<notin> set (trace s)" "Cmd (Upload ch u p z) \<notin> set (trace s)"
    for ch u p z
    by auto
  with release_artifact [OF rel] show ?thesis
    by (simp add: m rel zip_name_def)
qed

theorem artifact_name_from_version_witness:
  "fst (prepare nightly_world (start nightly_world)) = Inr nightly_vars
   \<and> py_str (etext (version nightly_vars)) = ''1.2.3.abcd123''
   \<and> zip_name nightly_vars = ''pants_1.2.3.abcd123.zip''
   \<and> build_rc nightly_world = 0
   \<and> Cmd (Packaging ''pants_1.2.3.abcd123.zip'') \<in> set (trace (snd (main nightly_world)))"
proof -
  have n: "fst (prepare nightly_world (start nightly_world)) = Inr nightly_vars"
    by (simp add: prepare_nightly)
  have b: "build_rc nightly_world = 0"
    by (simp add: world_defs)
  have v: "py_str (etext (version nightly_vars)) = ''1.2.3.abcd123''"
    by (simp add: nightly_vars_def py_str_def)
  from artifact_name_from_version [OF n] b
  have "zip_name nightly_vars = ''pants_'' @ py_str (etext (version nightly_vars)) @ ''.zip''"
    and "Cmd (Packaging (zip_name nightly_vars)) \<in> set (trace (snd (main nightly_world)))"
    by blast+
  then have z: "zip_name nightly_vars = ''pants_1.2.3.abcd123.zip''"
    and p: "Cmd (Packaging ''pants_1.2.3.abcd123.zip'') \<in> set (trace (snd (main nightly_world)))"
    by (simp_all add: v)
  from n v z b p show ?thesis
    by (intro conjI)
qed

section \<open>A manifest without a version\<close>

text \<open>
  Claim C6. When the manifest that the script checks out has no version element the
  process ends with status 1 and the only command it has run is the checkout of line 42:
  nothing is built,
  packaged or uploaded. When that checkout succeeded, the run is this checkout, the error
  message of line 49 and \<^verbatim>\<open>exit(1)\<close>.
\<close>

theorem missing_version_exits:
  assumes "indexed w = Document root" "find_el root ''version'' = None"
  shows "exit_code (fst (main w)) = 1
       \<and> (\<forall>c. Cmd c \<in> set (trace (snd (main w))) \<longrightarrow> c = GitCheckout)
       \<and> (checkout_first_rc w = 0 \<longrightarrow>
            main w = (Some (SystemExit 1),
                      \<lparr>disk = indexed w, trace = [Cmd GitCheckout, LogError VersionTagNotFound]\<rparr>))"
  using assms by (simp add: main_def prepare_flat start_def exit_code_def)

theorem missing_version_exits_witness:
  "indexed no_version_world = Document manifest_no_version
   \<and> find_el manifest_no_version ''version'' = None
   \<and> checkout_first_rc no_version_world = 0
   \<and> exit_code (fst (main no_version_world)) = 1
   \<and> trace (snd (main no_version_world)) = [Cmd GitCheckout, LogError VersionTagNotFound]"
proof -
  have c: "indexed no_version_world = Document manifest_no_version"
    by (simp add: world_defs)
  have f: "find_el manifest_no_version ''version'' = None"
    by (simp add: world_defs find_el_def)
  have k: "checkout_first_rc no_version_world = 0"
    by (simp add: world_defs)
  from missing_version_exits [OF c f] k
  have e: "exit_code (fst (main no_version_world)) = 1"
    and "main no_version_world =
           (Some (SystemExit 1),
            \<lparr>disk = indexed no_version_world,
             trace = [Cmd GitCheckout, LogError VersionTagNotFound]\<rparr>)"
    by blast+
  then have t: "trace (snd (main no_version_world)) = [Cmd GitCheckout, LogError VersionTagNotFound]"
    by simp
  from c f k e t show ?thesis
    by (intro conjI)
qed

section \<open>Upload and verification\<close>

text \<open>
  Claim C7. The run is the same whatever the uploader returns: outcome, exit status,
  manifest and trace. Once the uploader has run, the script is at line 114: without a tag
  it runs the pipeline with the commit hash, with a tag it stops there on the unbound name.
\<close>

theorem upload_return_code_ignored:
  "main (w\<lparr>upload_rc := k\<rparr>) = main w
   \<and> (Cmd (Upload ch u p z) \<in> set (trace (snd (main w))) \<longrightarrow>
        (if arg_tag w = []
         then Cmd (CurlGrep (strip (rev_parse_out w))) \<in> set (trace (snd (main w)))
         else fst (main w) = Some (NameError ''sha'')))"
proof
  show "main (w\<lparr>upload_rc := k\<rparr>) = main w"
    by (simp add: main_def start_def prepare_upload_rc release_upload_rc
          split: prod.splits sum.splits)
  show "Cmd (Upload ch u p z) \<in> set (trace (snd (main w))) \<longrightarrow>
        (if arg_tag w = []
         then Cmd (CurlGrep (strip (rev_parse_out w))) \<in> set (trace (snd (main w)))
         else fst (main w) = Some (NameError ''sha''))"
  proof (cases w rule: main_cases)
    case (abort e s')
    from prepare_events [OF abort(1)] have "Cmd (Upload ch u p z) \<notin> set (trace s')"
      by auto
    with abort(2) show ?thesis by simp
  next
    case (run x s)
    obtain r s' where rel: "release w x s = (r, s')"
      by (cases "release w x s")
    from prepare_events [OF run(1)] have "Cmd (Upload ch u p z) \<notin> set (trace s)"
      by auto
    with release_after_upload_cmd [OF rel] prepare_sha [OF run(1)] show ?thesis
      by (simp add: run(2) rel split: if_splits)
  qed
qed

theorem upload_return_code_ignored_witness:
  "upload_rc nightly_world = 1
   \<and> main (nightly_world\<lparr>upload_rc := 0\<rparr>) = main nightly_world
   \<and> Cmd (Upload ''BleedingEdge'' ''bot'' ''pw'' ''pants_1.2.3.abcd123.zip'')
        \<in> set (trace (snd (main nightly_world)))
   \<and> arg_tag nightly_world = []
   \<and> Cmd (CurlGrep ''abcd123'') \<in> set (trace (snd (main nightly_world)))"
proof -
  let ?u = "Cmd (Upload ''BleedingEdge'' ''bot'' ''pw'' ''pants_1.2.3.abcd123.zip'')"
  have a: "upload_rc nightly_world = 1" and t: "arg_tag nightly_world = []"
    by (simp_all add: world_defs)
  have u: "?u \<in> set (trace (snd (main nightly_world)))"
    by (simp add: main_nightly)
  from upload_return_code_ignored
         [where w = nightly_world and k = 0 and ch = "''BleedingEdge''" and u = "''bot''"
            and p = "''pw''" and z = "''pants_1.2.3.abcd123.zip''"] u t
  have m: "main (nightly_world\<lparr>upload_rc := 0\<rparr>) = main nightly_world"
    and "Cmd (CurlGrep (strip (rev_parse_out nightly_world))) \<in> set (trace (snd (main nightly_world)))"
    by simp_all
  then have c: "Cmd (CurlGrep ''abcd123'') \<in> set (trace (snd (main nightly_world)))"
    by (simp add: world_defs strip_def is_space_def)
  from a m u t c show ?thesis
    by (intro conjI)
qed

text \<open>
  Claim C8 at a run with the tag 1.2.3 in which every command succeeds: after the upload
  the script raises \<^verbatim>\<open>NameError\<close> at line 114, logs neither verdict and ends
  with status 1.
\<close>

theorem tagged_run_skips_verification:
  "arg_tag tagged_world = ''1.2.3''
   \<and> fst (main tagged_world) = Some (NameError ''sha'')
   \<and> exit_code (fst (main tagged_world)) = 1
   \<and> LogInfo Uploading \<in> set (trace (snd (main tagged_world)))
   \<and> LogInfo DeploySucceeded \<notin> set (trace (snd (main tagged_world)))
   \<and> LogError DeployFailed \<notin> set (trace (snd (main tagged_world)))"
  by (simp add: main_tagged exit_code_def) (simp add: world_defs)

text \<open>
  Without a tag the verdict is read off the page: once the uploader has run and the hash
  is an object name, the run ends normally, logs success exactly when the hash occurs in
  the page, and logs the failure otherwise.
\<close>

lemma bleeding_edge_verification:
  assumes "arg_tag w = []" "is_object_name (strip (rev_parse_out w))"
    and "LogInfo Uploading \<in> set (trace (snd (main w)))"
  shows "fst (main w) = None"
    and "LogInfo DeploySucceeded \<in> set (trace (snd (main w)))
           \<longleftrightarrow> sublist (strip (rev_parse_out w)) (page w)"
    and "LogError DeployFailed \<in> set (trace (snd (main w)))
           \<longleftrightarrow> \<not> sublist (strip (rev_parse_out w)) (page w)"
proof -
  have "fst (main w) = None
      \<and> (LogInfo DeploySucceeded \<in> set (trace (snd (main w)))
           \<longleftrightarrow> sublist (strip (rev_parse_out w)) (page w))
      \<and> (LogError DeployFailed \<in> set (trace (snd (main w)))
           \<longleftrightarrow> \<not> sublist (strip (rev_parse_out w)) (page w))"
  proof (cases w rule: main_cases)
    case (abort e s')
    from prepare_events [OF abort(1)] have "LogInfo Uploading \<notin> set (trace s')"
      by auto
    with assms(3) abort(2) show ?thesis by simp
  next
    case (run x s)
    obtain r s' where rel: "release w x s = (r, s')"
      by (cases "release w x s")
    from prepare_events [OF run(1)]
    have "LogInfo DeploySucceeded \<notin> set (trace s)" "LogError DeployFailed \<notin> set (trace s)"
      "LogInfo Uploading \<notin> set (trace s)"
      by auto
    moreover from prepare_sha [OF run(1)] assms(1) have "sha x = Some (strip (rev_parse_out w))"
      by simp
    moreover from assms(3) have "LogInfo Uploading \<in> set (trace s')"
      by (simp add: run(2) rel)
    ultimately show ?thesis
      using release_verdict [OF rel _ assms(2)] by (simp add: run(2) rel)
  qed
  then show "fst (main w) = None"
    and "LogInfo DeploySucceeded \<in> set (trace (snd (main w)))
           \<longleftrightarrow> sublist (strip (rev_parse_out w)) (page w)"
    and "LogError DeployFailed \<in> set (trace (snd (main w)))
           \<longleftrightarrow> \<not> sublist (strip (rev_parse_out w)) (page w)"
    by blast+
qed

section \<open>The manifest that is read\<close>

lemma released_version_from_index:
  "LogInfo (Releasing v ch) \<in> set (trace (snd (main w))) \<Longrightarrow>
     \<exists>e. read_version (indexed w) = Some e
        \<and> v = (if arg_tag w \<noteq> [] then py_str (etext e)
                else py_str (etext e) @ ''.'' @ strip (rev_parse_out w))"
proof (cases w rule: main_cases)
  case (abort e s')
  assume "LogInfo (Releasing v ch) \<in> set (trace (snd (main w)))"
  moreover from prepare_events [OF abort(1)] have "LogInfo (Releasing v ch) \<notin> set (trace s')"
    by auto
  ultimately show ?thesis
    using abort(2) by simp
next
  case (run x s)
  assume logged: "LogInfo (Releasing v ch) \<in> set (trace (snd (main w)))"
  obtain r s' where rel: "release w x s = (r, s')"
    by (cases "release w x s")
  from prepare_events [OF run(1)] have quiet: "LogInfo (Releasing v ch) \<notin> set (trace s)"
    by auto
  from prepare_reads_indexed [OF run(1)] obtain e where e: "read_version (indexed w) = Some e"
    by blast
  from logged have "LogInfo (Releasing v ch) \<in> set (trace s')"
    by (simp add: run(2) rel)
  with release_artifact [OF rel] quiet have "v = py_str (etext (version x))"
    by blast
  with prepare_version [OF run(1) e] e show ?thesis
    by blast
qed

lemma main_staged_edit:
  "main staged_edit_world =
     (None,
      \<lparr>disk = Document manifest_edited,
       trace = [Cmd GitCheckout, Cmd GitRevParse, LogInfo (AppendSha ''abcd123''),
                WriteManifest (Element ''idea-plugin'' None
                  [Element ''name'' (Some ''Pants Support'') [],
                   Element ''version'' (Some ''9.9.9.abcd123'') []]),
                LogInfo (Releasing ''9.9.9.abcd123'' ''BleedingEdge''),
                LogInfo (Running BuildJar), Cmd BuildJar, LogInfo PackagingIntoZip,
                LogInfo (Running (Packaging ''pants_9.9.9.abcd123.zip'')),
                Cmd (Packaging ''pants_9.9.9.abcd123.zip''),
                LogInfo (BuiltSuccessfully ''pants_9.9.9.abcd123.zip''),
                Cmd GitCheckout, LogInfo Uploading,
                Cmd (Upload ''BleedingEdge'' ''bot'' ''pw'' ''pants_9.9.9.abcd123.zip''),
                Cmd (CurlGrep ''abcd123''), LogInfo DeploySucceeded]\<rparr>)"
  by (simp add: script_defs world_defs eval_defs CHANNEL_BLEEDING_EDGE_def)

text \<open>
  An edit of the manifest that is staged and not committed survives the checkout of line
  42: the commit has the version 1.2.3, the index and the disk have 9.9.9, and the run
  releases 9.9.9.abcd123 and leaves the edited manifest on disk.
\<close>

theorem staged_edit_counterexample:
  "read_version (committed staged_edit_world) = Some (Element ''version'' (Some ''1.2.3'') [])
   \<and> read_version (disk_before staged_edit_world) = Some (Element ''version'' (Some ''9.9.9'') [])
   \<and> disk_before staged_edit_world \<noteq> committed staged_edit_world
   \<and> checkout_first_rc staged_edit_world = 0
   \<and> LogInfo (Releasing ''9.9.9.abcd123'' ''BleedingEdge'')
        \<in> set (trace (snd (main staged_edit_world)))
   \<and> Cmd (Upload ''BleedingEdge'' ''bot'' ''pw'' ''pants_9.9.9.abcd123.zip'')
        \<in> set (trace (snd (main staged_edit_world)))
   \<and> disk (snd (main staged_edit_world)) = disk_before staged_edit_world"
  by (simp add: main_staged_edit) (simp add: world_defs read_version_def find_el_def)

text \<open>
  Claim C9, as the script has it. The first effect of every run is the checkout of the
  manifest, which takes it from the index. Outcome and trace of the run do not depend on
  what was on disk before, and when the checkout succeeds neither does the manifest left
  behind: an edit that is not staged is discarded. The run does not depend on the manifest of
  the \<^verbatim>\<open>HEAD\<close> commit either. A released version is always computed from the
  version element of the manifest in the index, which is the committed one when the index
  holds the committed manifest.
\<close>

theorem checked_out_manifest_is_read:
  "fst (main (w\<lparr>disk_before := d\<rparr>)) = fst (main w)
   \<and> trace (snd (main (w\<lparr>disk_before := d\<rparr>))) = trace (snd (main w))
   \<and> (checkout_first_rc w = 0 \<longrightarrow> main (w\<lparr>disk_before := d\<rparr>) = main w)
   \<and> main (w\<lparr>committed := c\<rparr>) = main w
   \<and> take 1 (trace (snd (main w))) = [Cmd GitCheckout]
   \<and> (LogInfo (Releasing v ch) \<in> set (trace (snd (main w))) \<longrightarrow>
        (\<exists>e. read_version (indexed w) = Some e
           \<and> v = (if arg_tag w \<noteq> [] then py_str (etext e)
                   else py_str (etext e) @ ''.'' @ strip (rev_parse_out w))))
   \<and> (indexed w = committed w \<and> LogInfo (Releasing v ch) \<in> set (trace (snd (main w))) \<longrightarrow>
        (\<exists>e. read_version (committed w) = Some e
           \<and> v = (if arg_tag w \<noteq> [] then py_str (etext e)
                   else py_str (etext e) @ ''.'' @ strip (rev_parse_out w))))"
proof (intro conjI)
  have same: "checkout_first_rc w = 0 \<Longrightarrow> main (w\<lparr>disk_before := d\<rparr>) = main w"
    by (simp add: main_def start_disk_before prepare_disk_before release_disk_before
          prepare_start_disk(3) split: prod.splits sum.splits)
  then show "checkout_first_rc w = 0 \<longrightarrow> main (w\<lparr>disk_before := d\<rparr>) = main w"
    by simp
  show "fst (main (w\<lparr>disk_before := d\<rparr>)) = fst (main w)"
    using same by (cases "checkout_first_rc w = 0") (simp_all add: main_first_checkout_failed)
  show "trace (snd (main (w\<lparr>disk_before := d\<rparr>))) = trace (snd (main w))"
    using same by (cases "checkout_first_rc w = 0") (simp_all add: main_first_checkout_failed)
  show "main (w\<lparr>committed := c\<rparr>) = main w"
    by (simp add: main_def start_def prepare_head release_head split: prod.splits sum.splits)
  show "take 1 (trace (snd (main w))) = [Cmd GitCheckout]"
  proof (cases w rule: main_cases)
    case (abort e s')
    from prepare_events [OF abort(1)] obtain rest where "trace s' = Cmd GitCheckout # rest"
      by blast
    with abort(2) show ?thesis by simp
  next
    case (run x s)
    obtain r s' where rel: "release w x s = (r, s')"
      by (cases "release w x s")
    from prepare_events [OF run(1)] obtain rest where "trace s = Cmd GitCheckout # rest"
      by blast
    moreover from release_restores_after_build [OF rel] obtain more
      where "trace s' = trace s @ more"
      by blast
    ultimately show ?thesis by (simp add: run(2) rel)
  qed
  show "LogInfo (Releasing v ch) \<in> set (trace (snd (main w))) \<longrightarrow>
        (\<exists>e. read_version (indexed w) = Some e
           \<and> v = (if arg_tag w \<noteq> [] then py_str (etext e)
                   else py_str (etext e) @ ''.'' @ strip (rev_parse_out w)))"
    using released_version_from_index [of v ch w] by blast
  show "indexed w = committed w \<and> LogInfo (Releasing v ch) \<in> set (trace (snd (main w))) \<longrightarrow>
        (\<exists>e. read_version (committed w) = Some e
           \<and> v = (if arg_tag w \<noteq> [] then py_str (etext e)
                   else py_str (etext e) @ ''.'' @ strip (rev_parse_out w)))"
  proof
    assume h: "indexed w = committed w \<and> LogInfo (Releasing v ch) \<in> set (trace (snd (main w)))"
    then have "\<exists>e. read_version (indexed w) = Some e
        \<and> v = (if arg_tag w \<noteq> [] then py_str (etext e)
                else py_str (etext e) @ ''.'' @ strip (rev_parse_out w))"
      using released_version_from_index [of v ch w] by blast
    with h show "\<exists>e. read_version (committed w) = Some e
        \<and> v = (if arg_tag w \<noteq> [] then py_str (etext e)
                else py_str (etext e) @ ''.'' @ strip (rev_parse_out w))"
      by simp
  qed
qed

theorem checked_out_manifest_is_read_witness:
  "disk_before dirty_world = Document manifest_edited
   \<and> disk_before dirty_world \<noteq> indexed dirty_world
   \<and> checkout_first_rc dirty_world = 0
   \<and> main (dirty_world\<lparr>disk_before := indexed dirty_world\<rparr>) = main dirty_world
   \<and> disk (snd (main dirty_world)) = indexed dirty_world
   \<and> indexed dirty_world = committed dirty_world
   \<and> LogInfo (Releasing ''1.2.3.abcd123'' ''BleedingEdge'') \<in> set (trace (snd (main dirty_world)))
   \<and> read_version (committed dirty_world) = Some (Element ''version'' (Some ''1.2.3'') [])"
proof -
  have a: "disk_before dirty_world = Document manifest_edited"
    and a': "disk_before dirty_world \<noteq> indexed dirty_world"
    and b: "checkout_first_rc dirty_world = 0"
    and i: "indexed dirty_world = committed dirty_world"
    and e: "read_version (committed dirty_world) = Some (Element ''version'' (Some ''1.2.3'') [])"
    by (simp_all add: world_defs read_version_def find_el_def)
  have l: "LogInfo (Releasing ''1.2.3.abcd123'' ''BleedingEdge'') \<in> set (trace (snd (main dirty_world)))"
    and k: "disk (snd (main dirty_world)) = indexed dirty_world"
    by (simp_all add: main_dirty main_nightly) (simp add: world_defs)
  from checked_out_manifest_is_read [where w = dirty_world and d = "indexed dirty_world"] b
  have m: "main (dirty_world\<lparr>disk_before := indexed dirty_world\<rparr>) = main dirty_world"
    by blast
  from a a' b m k i l e show ?thesis
    by (intro conjI)
qed

section \<open>Runs with a tag\<close>

text \<open>
  Claim C10. A run with a tag never runs \<^verbatim>\<open>git rev-parse HEAD\<close>. It reaches
  the upload whenever the first checkout succeeds, the checked-out manifest has a version
  element, build, packaging and the second checkout succeed and both credentials are set;
  and every such run that has reached the upload ends with \<^verbatim>\<open>NameError\<close> for
  \<^verbatim>\<open>sha\<close> and status 1, without running the pipeline of line 114 and without
  logging a verdict.
\<close>

theorem tagged_run_name_error:
  assumes "arg_tag w \<noteq> []"
  shows "Cmd GitRevParse \<notin> set (trace (snd (main w)))
       \<and> (checkout_first_rc w = 0 \<and> read_version (indexed w) \<noteq> None
            \<and> build_rc w = 0 \<and> packaging_rc w = 0 \<and> checkout_final_rc w = 0
            \<and> environ w ''USERNAME'' \<noteq> None \<and> environ w ''PASSWORD'' \<noteq> None
          \<longrightarrow> LogInfo Uploading \<in> set (trace (snd (main w))))
       \<and> (LogInfo Uploading \<in> set (trace (snd (main w))) \<longrightarrow>
            fst (main w) = Some (NameError ''sha'')
            \<and> exit_code (fst (main w)) = 1
            \<and> LogInfo DeploySucceeded \<notin> set (trace (snd (main w)))
            \<and> LogError DeployFailed \<notin> set (trace (snd (main w)))
            \<and> (\<forall>h. Cmd (CurlGrep h) \<notin> set (trace (snd (main w)))))"
proof (cases w rule: main_cases)
  case (abort e s')
  from prepare_events [OF abort(1)] assms
  have "Cmd GitRevParse \<notin> set (trace s')" "LogInfo Uploading \<notin> set (trace s')"
    by auto
  moreover have "\<not> (checkout_first_rc w = 0 \<and> read_version (indexed w) \<noteq> None)"
  proof
    assume "checkout_first_rc w = 0 \<and> read_version (indexed w) \<noteq> None"
    with assms prepare_succeeds [of w _ "start w"] obtain x s where "prepare w (start w) = (Inr x, s)"
      by blast
    with abort(1) show False by simp
  qed
  ultimately show ?thesis
    using abort(2) by auto
next
  case (run x s)
  obtain r s' where rel: "release w x s = (r, s')"
    by (cases "release w x s")
  from prepare_sha [OF run(1)] assms have unbound: "sha x = None"
    by simp
  from prepare_events [OF run(1)] assms
  have quiet: "Cmd GitRevParse \<notin> set (trace s)" "LogInfo Uploading \<notin> set (trace s)"
    "LogInfo DeploySucceeded \<notin> set (trace s)" "LogError DeployFailed \<notin> set (trace s)"
    "Cmd (CurlGrep h) \<notin> set (trace s)" for h
    by auto
  from release_unbound_sha [OF rel unbound] quiet
  have none: "Cmd GitRevParse \<notin> set (trace s')" "LogInfo DeploySucceeded \<notin> set (trace s')"
    "LogError DeployFailed \<notin> set (trace s')" "Cmd (CurlGrep h) \<notin> set (trace s')" for h
    by blast+
  have reach: "build_rc w = 0 \<and> packaging_rc w = 0 \<and> checkout_final_rc w = 0
            \<and> environ w ''USERNAME'' \<noteq> None \<and> environ w ''PASSWORD'' \<noteq> None
          \<Longrightarrow> LogInfo Uploading \<in> set (trace s')"
    using release_reaches_upload [OF rel] by blast
  have error: "LogInfo Uploading \<in> set (trace s') \<Longrightarrow> r = Some (NameError ''sha'')"
    using release_after_upload [OF rel _ quiet(2)] unbound by simp
  from none reach error show ?thesis
    by (auto simp: run(2) rel exit_code_def)
qed

theorem tagged_run_name_error_witness:
  "arg_tag tagged_world \<noteq> []
   \<and> LogInfo Uploading \<in> set (trace (snd (main tagged_world)))
   \<and> fst (main tagged_world) = Some (NameError ''sha'')
   \<and> exit_code (fst (main tagged_world)) = 1
   \<and> Cmd GitRevParse \<notin> set (trace (snd (main tagged_world)))"
proof -
  have t: "arg_tag tagged_world \<noteq> []"
    by (simp add: world_defs)
  have u: "LogInfo Uploading \<in> set (trace (snd (main tagged_world)))"
    by (simp add: main_tagged)
  from tagged_run_name_error [OF t] u
  have "fst (main tagged_world) = Some (NameError ''sha'')"
    and "exit_code (fst (main tagged_world)) = 1"
    and "Cmd GitRevParse \<notin> set (trace (snd (main tagged_world)))"
    by blast+
  with t u show ?thesis
    by (intro conjI)
qed

end
